theory Spec2Isabelle
  imports Main "HOL-Library.Sublist"
begin

section \<open>Data model (src/src/models.py)\<close>

text \<open>
  The dataclasses of \<^verbatim>\<open>models.py\<close> become records. Python's \<^verbatim>\<open>Optional[T]\<close> is
  \<open>T option\<close>, \<^verbatim>\<open>Dict[str, Any]\<close> is a map from strings to values of an arbitrary type
  \<open>'v\<close>, and Python's unbounded \<^verbatim>\<open>int\<close> is \<open>int\<close>. The \<^verbatim>\<open>Literal\<close> aliases
  (\<^verbatim>\<open>TaskType\<close>, \<^verbatim>\<open>TenantTier\<close>, \<^verbatim>\<open>CostTier\<close>) are not enforced at run time, so these
  fields are plain strings, as the router compares them. A string is a list of characters
  whose codes are Python code points in the range 0..255.

  Field names that several dataclasses share are written qualified
  (\<open>feature_summary.task_type\<close>, \<open>rule_condition.task_type\<close>). The fields \<^verbatim>\<open>id\<close> and
  \<^verbatim>\<open>type\<close> of \<^verbatim>\<open>ModelConfig\<close>, \<^verbatim>\<open>id\<close> and \<^verbatim>\<open>when\<close> of \<^verbatim>\<open>RoutingRule\<close> and
  \<^verbatim>\<open>text\<close> of \<^verbatim>\<open>TaskDescriptor\<close> carry a suffix.
\<close>

record retry_policy =
  max_attempts :: int
  backoff_ms :: int

record 'v model_config =
  id_model :: string
  provider :: string
  type_model :: string
  model_id :: string
  max_context_tokens :: "int option"
  max_chunk_tokens :: "int option"
  languages :: "string list option"
  strengths :: "string list option"
  cost_tier :: string
  default_params :: "string \<rightharpoonup> 'v"
  backup_model_id :: "string option"
  retry_policy :: retry_policy

record rule_condition_range =
  gte :: "int option"
  lt :: "int option"

record rule_condition =
  task_type :: "string option"
  complexity :: "string option"
  language :: "string option"
  tenant_tiers :: "string list option"
  context_tokens_range :: "rule_condition_range option"
  chunk_tokens_range :: "rule_condition_range option"

record 'v routing_rule =
  id_rule :: string
  when_rule :: rule_condition
  use_model :: string
  override_params :: "string \<rightharpoonup> 'v"

record 'v router_config =
  models :: "string \<rightharpoonup> 'v model_config"
  rules :: "'v routing_rule list"
  default_chat_model_id :: "string option"
  default_embedding_model_id :: "string option"

record 'v task_descriptor =
  text_task :: string
  task_type :: string
  context_tokens :: "int option"
  tenant_id :: "string option"
  tenant_tier :: string
  metadata :: "string \<rightharpoonup> 'v"

record feature_summary =
  task_type :: string
  token_count :: int
  size_class :: string
  language :: string
  complexity :: string
  context_tokens :: int
  tenant_tier :: string

record 'v model_selection =
  model_config :: "'v model_config"
  params :: "string \<rightharpoonup> 'v"

text \<open>
  Every \<^verbatim>\<open>raise\<close> of the router and of \<^verbatim>\<open>ModelHandle\<close> is a constructor, with the values
  its message interpolates:
  \<^item> \<open>NoDefaultConfigured t\<close>: \<^verbatim>\<open>RuntimeError("No default model configured for task_type=t")\<close>;
  \<^item> \<open>UnknownModel k\<close>: the \<^verbatim>\<open>KeyError\<close> of \<^verbatim>\<open>self._config.models[k]\<close>;
  \<^item> \<open>ContextExceeded c m i\<close>: \<^verbatim>\<open>ValueError("Context (c) exceeds model max_context_tokens (m) for model i")\<close>;
  \<^item> \<open>ChunkExceeded c m i\<close>: \<^verbatim>\<open>ValueError("Chunk size (c) exceeds model max_chunk_tokens (m) for model i")\<close>;
  \<^item> \<open>UnsupportedProvider p\<close>: \<^verbatim>\<open>ValueError("Unsupported provider: p")\<close>;
  \<^item> \<open>ChatOnNonChat\<close>, \<open>EmbedOnNonEmbedding\<close>: the two \<^verbatim>\<open>TypeError\<close>s of \<^verbatim>\<open>ModelHandle\<close>;
  \<^item> \<open>ThrottledNoBackup i\<close>:
    \<^verbatim>\<open>ThrottlingError("Primary model i throttled and no backup_model_id configured")\<close>;
  \<^item> \<open>BackupNotFound b i\<close>: \<^verbatim>\<open>ThrottlingError("Backup model b for i not found in config")\<close>;
  \<^item> \<open>BothThrottled i b\<close>: \<^verbatim>\<open>ThrottlingError("Primary model i and backup b both throttled")\<close>;
  \<^item> \<open>BackendError msg\<close>: an exception raised by a provider client and re-raised unchanged,
    with \<^verbatim>\<open>str(e) = msg\<close>;
  \<^item> \<open>SleepNegative\<close>: the \<^verbatim>\<open>ValueError\<close> of \<^verbatim>\<open>time.sleep\<close> on a negative length.
\<close>

datatype error =
    NoDefaultConfigured string
  | UnknownModel string
  | ContextExceeded int int string
  | ChunkExceeded int int string
  | UnsupportedProvider string
  | ChatOnNonChat
  | EmbedOnNonEmbedding
  | ThrottledNoBackup string
  | BackupNotFound string string
  | BothThrottled string string
  | BackendError string
  | SleepNegative

section \<open>Python truthiness\<close>

text \<open>
  \<^verbatim>\<open>if x\<close> on an \<^verbatim>\<open>Optional[str]\<close>, \<^verbatim>\<open>Optional[int]\<close> or \<^verbatim>\<open>Optional[List]\<close> is false for
  \<^verbatim>\<open>None\<close> and also for the empty string, zero and the empty list.
\<close>

fun truthy_str :: "string option \<Rightarrow> bool" where
  "truthy_str None = False"
| "truthy_str (Some s) = (s \<noteq> [])"

fun truthy_int :: "int option \<Rightarrow> bool" where
  "truthy_int None = False"
| "truthy_int (Some n) = (n \<noteq> 0)"

fun truthy_list :: "'a list option \<Rightarrow> bool" where
  "truthy_list None = False"
| "truthy_list (Some xs) = (xs \<noteq> [])"

section \<open>Feature extraction (src/src/utils/text_analysis.py)\<close>

text \<open>\<^verbatim>\<open>k in s\<close> on strings: \<open>k\<close> occurs in \<open>s\<close> as a contiguous block.\<close>

fun py_in :: "string \<Rightarrow> string \<Rightarrow> bool" where
  "py_in k [] = (k = [])"
| "py_in k (c # cs) = (prefix k (c # cs) \<or> py_in k cs)"

text \<open>
  \<^verbatim>\<open>str.lower()\<close> on code points below 256: the letters A..Z and the Latin-1 capitals
  (192..222 except the multiplication sign 215) move up by 32, which sets bit 5 of the
  code; every other character stays.
\<close>

fun lower_char :: "char \<Rightarrow> char" where
  "lower_char (Char b0 b1 b2 b3 b4 b5 b6 b7) =
     (let n = (of_char (Char b0 b1 b2 b3 b4 b5 b6 b7) :: nat) in
      if (65 \<le> n \<and> n \<le> 90) \<or> (192 \<le> n \<and> n \<le> 222 \<and> n \<noteq> 215)
      then Char b0 b1 b2 b3 b4 True b6 b7
      else Char b0 b1 b2 b3 b4 b5 b6 b7)"

definition lower :: "string \<Rightarrow> string" where
  "lower s = map lower_char s"

definition estimate_tokens :: "string \<Rightarrow> int" where
  "estimate_tokens txt = max 1 (int (length txt) div 4)"

definition classify_size :: "int \<Rightarrow> string" where
  "classify_size token_count' =
     (if token_count' < 256 then ''small''
      else if token_count' < 2048 then ''medium''
      else ''large'')"

text \<open>
  \<^verbatim>\<open>ratio = ascii_chars / max(1, len(text))\<close> and \<^verbatim>\<open>ratio > 0.8\<close> are floating point in
  the source. For texts shorter than \<open>10^15\<close> characters the rounded quotient exceeds the
  rounded \<^verbatim>\<open>0.8\<close> exactly when the exact quotient exceeds \<open>4/5\<close>, which is the integer
  test written here.
\<close>

definition detect_language :: "string \<Rightarrow> string" where
  "detect_language txt =
     (let ascii_chars = int (length (filter (\<lambda>c. (of_char c :: nat) < 128) txt)) in
      if 5 * ascii_chars > 4 * max 1 (int (length txt)) then ''en'' else ''multi'')"

definition estimate_complexity :: "string \<Rightarrow> string" where
  "estimate_complexity txt =
     (let len = int (length txt); lowercase = lower txt in
      if py_in ''explain in detail'' lowercase \<or> py_in ''architecture'' lowercase then ''high''
      else if len > 1000 then ''high''
      else if len > 300 then ''medium''
      else ''low'')"

definition build_feature_summary :: "'v task_descriptor \<Rightarrow> feature_summary" where
  "build_feature_summary task =
     (let tokens = estimate_tokens (text_task task);
          size_class' = classify_size tokens;
          language' = detect_language (text_task task);
          complexity' = estimate_complexity (text_task task);
          context_tokens' =
            (case task_descriptor.context_tokens task of
               None \<Rightarrow> 0
             | Some n \<Rightarrow> if n \<noteq> 0 then n else 0);
          tenant_tier' = task_descriptor.tenant_tier task
      in \<lparr>task_type = task_descriptor.task_type task,
          token_count = tokens,
          size_class = size_class',
          language = language',
          complexity = complexity',
          context_tokens = context_tokens',
          tenant_tier = tenant_tier'\<rparr>)"

section \<open>Selection (src/src/router.py)\<close>

text \<open>
  \<^verbatim>\<open>_rule_matches\<close>: six guarded early returns, in the order of the source. A range object
  is a dataclass instance and therefore always true as a condition; its bounds are tested
  with \<^verbatim>\<open>is not None\<close>.
\<close>

definition range_ok :: "rule_condition_range option \<Rightarrow> int \<Rightarrow> bool" where
  "range_ok r n =
     (case r of
        None \<Rightarrow> True
      | Some rg \<Rightarrow>
          if gte rg \<noteq> None \<and> n < the (gte rg) then False
          else if lt rg \<noteq> None \<and> n \<ge> the (lt rg) then False
          else True)"

definition rule_matches :: "'v routing_rule \<Rightarrow> feature_summary \<Rightarrow> bool" where
  "rule_matches rule features =
     (let cond = when_rule rule in
      if truthy_str (rule_condition.task_type cond)
         \<and> the (rule_condition.task_type cond) \<noteq> feature_summary.task_type features then False
      else if truthy_str (rule_condition.complexity cond)
         \<and> the (rule_condition.complexity cond) \<noteq> feature_summary.complexity features then False
      else if truthy_str (rule_condition.language cond)
         \<and> the (rule_condition.language cond) \<noteq> feature_summary.language features then False
      else if truthy_list (tenant_tiers cond)
         \<and> feature_summary.tenant_tier features \<notin> set (the (tenant_tiers cond)) then False
      else if \<not> range_ok (context_tokens_range cond) (feature_summary.context_tokens features)
        then False
      else if \<not> range_ok (chunk_tokens_range cond) (token_count features) then False
      else True)"

text \<open>\<^verbatim>\<open>_ensure_context_limit\<close>: \<open>None\<close> when it returns, \<open>Some e\<close> when it raises.\<close>

definition ensure_context_limit :: "'v model_config \<Rightarrow> feature_summary \<Rightarrow> error option" where
  "ensure_context_limit model_cfg features =
     (if feature_summary.task_type features = ''chat'' \<and> truthy_int (max_context_tokens model_cfg)
         \<and> feature_summary.context_tokens features > the (max_context_tokens model_cfg)
      then Some (ContextExceeded (feature_summary.context_tokens features)
                   (the (max_context_tokens model_cfg)) (id_model model_cfg))
      else if feature_summary.task_type features = ''embedding''
         \<and> truthy_int (max_chunk_tokens model_cfg)
         \<and> token_count features > the (max_chunk_tokens model_cfg)
      then Some (ChunkExceeded (token_count features)
                   (the (max_chunk_tokens model_cfg)) (id_model model_cfg))
      else None)"

text \<open>The body of the \<^verbatim>\<open>for\<close> loop of \<^verbatim>\<open>_select_model_for_features\<close> for a matching rule.\<close>

definition select_by_rule ::
  "'v router_config \<Rightarrow> 'v routing_rule \<Rightarrow> feature_summary \<Rightarrow> error + 'v model_selection" where
  "select_by_rule cfg rule features =
     (case models cfg (use_model rule) of
        None \<Rightarrow> Inl (UnknownModel (use_model rule))
      | Some model_cfg \<Rightarrow>
          (let params' = default_params model_cfg ++ override_params rule in
           case ensure_context_limit model_cfg features of
             Some e \<Rightarrow> Inl e
           | None \<Rightarrow> Inr \<lparr>model_config = model_cfg, params = params'\<rparr>))"

text \<open>The statements after the loop: the default target of the task kind.\<close>

definition select_default ::
  "'v router_config \<Rightarrow> feature_summary \<Rightarrow> error + 'v model_selection" where
  "select_default cfg features =
     (let default_id =
            (if feature_summary.task_type features = ''chat'' then default_chat_model_id cfg
             else default_embedding_model_id cfg)
      in if \<not> truthy_str default_id
         then Inl (NoDefaultConfigured (feature_summary.task_type features))
         else (case models cfg (the default_id) of
                 None \<Rightarrow> Inl (UnknownModel (the default_id))
               | Some model_cfg \<Rightarrow>
                   (case ensure_context_limit model_cfg features of
                      Some e \<Rightarrow> Inl e
                    | None \<Rightarrow> Inr \<lparr>model_config = model_cfg,
                                   params = default_params model_cfg\<rparr>)))"

text \<open>The loop over the rules in table order, then the defaults.\<close>

fun select_from ::
  "'v router_config \<Rightarrow> 'v routing_rule list \<Rightarrow> feature_summary \<Rightarrow> error + 'v model_selection" where
  "select_from cfg [] features = select_default cfg features"
| "select_from cfg (rule # rest) features =
     (if rule_matches rule features then select_by_rule cfg rule features
      else select_from cfg rest features)"

definition select_model_for_features ::
  "'v router_config \<Rightarrow> feature_summary \<Rightarrow> error + 'v model_selection" where
  "select_model_for_features cfg features = select_from cfg (rules cfg) features"

section \<open>Provider clients (src/src/providers)\<close>

text \<open>
  A provider client talks to an external service, so its answers are not computed here:
  they are given. A call either returns a response or raises an exception, of which the
  router reads only \<^verbatim>\<open>str(e)\<close>. The exceptions are instances of \<^verbatim>\<open>Exception\<close>, the
  class the router's handlers catch. An operation of a client is a function of the number
  of the call (1 for the first call of a loop, 2 for the second, ...) and of the
  argument, which fixes the outcome of every call of one run. The argument (a list of
  messages or a text) and the response are values of arbitrary types \<open>'a\<close> and \<open>'r\<close>: the
  router passes them on without looking inside.
\<close>

datatype 'r outcome = Returns 'r | Raises string

record ('a, 'r) provider_client =
  chat :: "nat \<Rightarrow> 'a \<Rightarrow> 'r outcome"
  embed :: "nat \<Rightarrow> 'a \<Rightarrow> 'r outcome"

text \<open>
  The three client classes: each constructor takes the backend model identifier and the
  call parameters, and returns a client or raises (it opens an SDK session).
\<close>

record ('v, 'a, 'r) provider_classes =
  BedrockProviderClient :: "string \<Rightarrow> (string \<rightharpoonup> 'v) \<Rightarrow> ('a, 'r) provider_client outcome"
  AnthropicProviderClient :: "string \<Rightarrow> (string \<rightharpoonup> 'v) \<Rightarrow> ('a, 'r) provider_client outcome"
  GeminiProviderClient :: "string \<Rightarrow> (string \<rightharpoonup> 'v) \<Rightarrow> ('a, 'r) provider_client outcome"

definition construct ::
  "('a, 'r) provider_client outcome \<Rightarrow> error + ('a, 'r) provider_client" where
  "construct r = (case r of Returns c \<Rightarrow> Inr c | Raises msg \<Rightarrow> Inl (BackendError msg))"

definition create_provider_client ::
  "('v, 'a, 'r) provider_classes \<Rightarrow> 'v model_config \<Rightarrow> (string \<rightharpoonup> 'v)
     \<Rightarrow> error + ('a, 'r) provider_client" where
  "create_provider_client classes model_cfg params' =
     (if provider model_cfg = ''bedrock''
        then construct (BedrockProviderClient classes (model_id model_cfg) params')
      else if provider model_cfg = ''anthropic''
        then construct (AnthropicProviderClient classes (model_id model_cfg) params')
      else if provider model_cfg = ''gemini''
        then construct (GeminiProviderClient classes (model_id model_cfg) params')
      else Inl (UnsupportedProvider (provider model_cfg)))"

section \<open>Throttling, retry and fallback (src/src/router.py)\<close>

definition throttling_keywords :: "string list" where
  "throttling_keywords =
     [''throttling'', ''rate limit'', ''too many requests'', ''tokens per minute'']"

text \<open>\<^verbatim>\<open>_is_throttling_error\<close>, on the message \<^verbatim>\<open>str(exc)\<close>.\<close>

definition is_throttling_error :: "string \<Rightarrow> bool" where
  "is_throttling_error exc =
     (let msg = lower exc in list_ex (\<lambda>k. py_in k msg) throttling_keywords)"

text \<open>
  What one run does to the outside world, in order: the calls it makes on the primary
  operation, on the backup client's \<^verbatim>\<open>chat\<close> and \<^verbatim>\<open>embed\<close>, each with its argument, and
  the waits, in milliseconds.
\<close>

datatype 'a event =
    CallPrimary 'a
  | CallBackupChat 'a
  | CallBackupEmbed 'a
  | Sleep int

text \<open>How a \<^verbatim>\<open>while True\<close> loop of the invoker ends.\<close>

datatype 'r loop_exit =
    Returned 'r
  | Raised error
  | Exhausted

text \<open>
  The two \<^verbatim>\<open>while True\<close> loops of \<^verbatim>\<open>_call_with_retry_and_fallback\<close> have the same body; they
  differ in the call they make and in the policy they read. \<open>retry_loop call ev policy attempt\<close>
  runs the loop from its head with the variable \<^verbatim>\<open>attempt\<close> at the given value:
  \<open>call k\<close> is the outcome of the attempt numbered \<open>k\<close>, and \<open>ev\<close> is the event one call leaves.
  \<^verbatim>\<open>time.sleep\<close> raises \<^verbatim>\<open>ValueError\<close> on a negative length.
\<close>

function retry_loop ::
  "(nat \<Rightarrow> 'r outcome) \<Rightarrow> 'a event \<Rightarrow> retry_policy \<Rightarrow> nat \<Rightarrow> 'r loop_exit \<times> 'a event list" where
  "retry_loop call ev policy attempt =
     (case call (Suc attempt) of
        Returns r \<Rightarrow> (Returned r, [ev])
      | Raises e \<Rightarrow>
          if \<not> is_throttling_error e then (Raised (BackendError e), [ev])
          else if int (Suc attempt) \<ge> max_attempts policy then (Exhausted, [ev])
          else if backoff_ms policy < 0 then (Raised SleepNegative, [ev])
          else (case retry_loop call ev policy (Suc attempt) of
                  (res, evs) \<Rightarrow> (res, ev # Sleep (backoff_ms policy) # evs)))"
  by pat_completeness auto
termination
  by (relation "measure (\<lambda>(call, ev, policy, attempt). nat (max_attempts policy - int attempt))")
     auto

declare retry_loop.simps [simp del]

text \<open>\<^verbatim>\<open>if not model_cfg.backup_model_id\<close>.\<close>

definition no_backup :: "'v model_config \<Rightarrow> bool" where
  "no_backup model_cfg = (\<not> truthy_str (backup_model_id model_cfg))"

text \<open>
  Part 2 of \<^verbatim>\<open>_call_with_retry_and_fallback\<close>, reached when the primary loop breaks;
  \<open>evs\<close> are the events of the primary loop.
\<close>

definition fallback ::
  "'v router_config \<Rightarrow> ('v, 'a, 'r) provider_classes \<Rightarrow> 'v model_config \<Rightarrow> 'a \<Rightarrow> 'a event list
     \<Rightarrow> (error + 'r) \<times> 'a event list" where
  "fallback cfg classes model_cfg func_arg evs =
     (if no_backup model_cfg then (Inl (ThrottledNoBackup (id_model model_cfg)), evs)
      else
        (case models cfg (the (backup_model_id model_cfg)) of
           None \<Rightarrow>
             (Inl (BackupNotFound (the (backup_model_id model_cfg)) (id_model model_cfg)), evs)
         | Some backup_cfg \<Rightarrow>
             (let backup_params = default_params backup_cfg;
                  backup_selection = \<lparr>model_config = backup_cfg, params = backup_params\<rparr>
              in case create_provider_client classes backup_cfg backup_params of
                   Inl e \<Rightarrow> (Inl e, evs)
                 | Inr backup_client \<Rightarrow>
                     (case retry_loop
                             (\<lambda>k. if type_model backup_cfg = ''chat''
                                  then chat backup_client k func_arg
                                  else embed backup_client k func_arg)
                             (if type_model backup_cfg = ''chat''
                              then CallBackupChat func_arg else CallBackupEmbed func_arg)
                             (retry_policy backup_cfg) 0 of
                        (Returned r, evs') \<Rightarrow> (Inr r, evs @ evs')
                      | (Raised e, evs') \<Rightarrow> (Inl e, evs @ evs')
                      | (Exhausted, evs') \<Rightarrow>
                          (Inl (BothThrottled (id_model model_cfg) (id_model backup_cfg)),
                           evs @ evs')))))"

definition call_with_retry_and_fallback ::
  "'v router_config \<Rightarrow> ('v, 'a, 'r) provider_classes \<Rightarrow> 'v model_selection
     \<Rightarrow> (nat \<Rightarrow> 'a \<Rightarrow> 'r outcome) \<Rightarrow> 'a \<Rightarrow> (error + 'r) \<times> 'a event list" where
  "call_with_retry_and_fallback cfg classes selection func func_arg =
     (let model_cfg = model_config selection;
          policy = retry_policy model_cfg
      in case retry_loop (\<lambda>k. func k func_arg) (CallPrimary func_arg) policy 0 of
           (Returned r, evs) \<Rightarrow> (Inr r, evs)
         | (Raised e, evs) \<Rightarrow> (Inl e, evs)
         | (Exhausted, evs) \<Rightarrow> fallback cfg classes model_cfg func_arg evs)"

section \<open>The handle and the entry point (src/src/models.py, src/src/router.py)\<close>

text \<open>
  \<^verbatim>\<open>ModelHandle\<close> holds the selection and the client; its reference to the router is the
  configuration and the client classes that the operations below take.
\<close>

record ('v, 'a, 'r) model_handle =
  selection :: "'v model_selection"
  provider_client :: "('a, 'r) provider_client"

definition handle_chat ::
  "'v router_config \<Rightarrow> ('v, 'a, 'r) provider_classes \<Rightarrow> ('v, 'a, 'r) model_handle \<Rightarrow> 'a
     \<Rightarrow> (error + 'r) \<times> 'a event list" where
  "handle_chat cfg classes h messages =
     (if type_model (model_config (selection h)) \<noteq> ''chat'' then (Inl ChatOnNonChat, [])
      else call_with_retry_and_fallback cfg classes (selection h)
             (chat (provider_client h)) messages)"

definition handle_embed ::
  "'v router_config \<Rightarrow> ('v, 'a, 'r) provider_classes \<Rightarrow> ('v, 'a, 'r) model_handle \<Rightarrow> 'a
     \<Rightarrow> (error + 'r) \<times> 'a event list" where
  "handle_embed cfg classes h txt =
     (if type_model (model_config (selection h)) \<noteq> ''embedding''
      then (Inl EmbedOnNonEmbedding, [])
      else call_with_retry_and_fallback cfg classes (selection h)
             (embed (provider_client h)) txt)"

definition select_model ::
  "'v router_config \<Rightarrow> ('v, 'a, 'r) provider_classes \<Rightarrow> 'v task_descriptor
     \<Rightarrow> error + ('v, 'a, 'r) model_handle" where
  "select_model cfg classes task =
     (let features = build_feature_summary task in
      case select_model_for_features cfg features of
        Inl e \<Rightarrow> Inl e
      | Inr sel \<Rightarrow>
          (case create_provider_client classes (model_config sel) (params sel) of
             Inl e \<Rightarrow> Inl e
           | Inr client \<Rightarrow> Inr \<lparr>selection = sel, provider_client = client\<rparr>))"

section \<open>The specification's wording of rule matching\<close>

text \<open>
  The specification's sentence on ranges: \<^verbatim>\<open>gte\<close> is an inclusive lower bound, \<^verbatim>\<open>lt\<close> an
  exclusive upper bound, either bound optional.
\<close>

definition spec_in_range :: "rule_condition_range option \<Rightarrow> int \<Rightarrow> bool" where
  "spec_in_range r n =
     (case r of
        None \<Rightarrow> True
      | Some rg \<Rightarrow>
          (case gte rg of None \<Rightarrow> True | Some g \<Rightarrow> g \<le> n)
          \<and> (case lt rg of None \<Rightarrow> True | Some l \<Rightarrow> n < l))"

text \<open>
  The specification's sentence on matching: every set field agrees with the summary,
  where a field is set when it is not \<^verbatim>\<open>None\<close>, and an unset field is a wildcard.
\<close>

definition spec_rule_matches :: "rule_condition \<Rightarrow> feature_summary \<Rightarrow> bool" where
  "spec_rule_matches cond features =
     ((case rule_condition.task_type cond of
         None \<Rightarrow> True | Some t \<Rightarrow> t = feature_summary.task_type features)
      \<and> (case rule_condition.complexity cond of
         None \<Rightarrow> True | Some c \<Rightarrow> c = feature_summary.complexity features)
      \<and> (case rule_condition.language cond of
         None \<Rightarrow> True | Some l \<Rightarrow> l = feature_summary.language features)
      \<and> (case tenant_tiers cond of
         None \<Rightarrow> True | Some ts \<Rightarrow> feature_summary.tenant_tier features \<in> set ts)
      \<and> spec_in_range (context_tokens_range cond) (feature_summary.context_tokens features)
      \<and> spec_in_range (chunk_tokens_range cond) (token_count features))"

text \<open>An empty string or list read as an unset field.\<close>

definition unset_empty :: "'x list option \<Rightarrow> 'x list option" where
  "unset_empty v = (case v of None \<Rightarrow> None | Some xs \<Rightarrow> if xs = [] then None else Some xs)"

definition unset_empty_fields :: "rule_condition \<Rightarrow> rule_condition" where
  "unset_empty_fields cond =
     cond\<lparr>rule_condition.task_type := unset_empty (rule_condition.task_type cond),
          rule_condition.complexity := unset_empty (rule_condition.complexity cond),
          rule_condition.language := unset_empty (rule_condition.language cond),
          tenant_tiers := unset_empty (tenant_tiers cond)\<rparr>"

text \<open>The condition with every field unset.\<close>

definition wildcard :: rule_condition where
  "wildcard = \<lparr>rule_condition.task_type = None, complexity = None, language = None,
     tenant_tiers = None, context_tokens_range = None, chunk_tokens_range = None\<rparr>"

section \<open>Example tables and requests\<close>

text \<open>Concrete inputs on which the theorems below are evaluated.\<close>

definition ex_model ::
  "string \<Rightarrow> string \<Rightarrow> string \<Rightarrow> int option \<Rightarrow> string option \<Rightarrow> int \<Rightarrow> int model_config" where
  "ex_model ident prov kind max_ctx backup attempts =
     \<lparr>id_model = ident, provider = prov, type_model = kind, model_id = ident,
      max_context_tokens = max_ctx, max_chunk_tokens = None, languages = None,
      strengths = None, cost_tier = ''medium'',
      default_params = [''max_tokens'' \<mapsto> 100],
      backup_model_id = backup,
      retry_policy = \<lparr>max_attempts = attempts, backoff_ms = 200\<rparr>\<rparr>"

definition ex_rule :: "string \<Rightarrow> rule_condition \<Rightarrow> string \<Rightarrow> int routing_rule" where
  "ex_rule ident cond target =
     \<lparr>id_rule = ident, when_rule = cond, use_model = target,
      override_params = [''max_tokens'' \<mapsto> 50]\<rparr>"

definition ex_features :: "string \<Rightarrow> int \<Rightarrow> int \<Rightarrow> feature_summary" where
  "ex_features kind tokens ctx =
     \<lparr>task_type = kind, token_count = tokens, size_class = ''small'', language = ''en'',
      complexity = ''low'', context_tokens = ctx, tenant_tier = ''standard''\<rparr>"

definition ex_table :: "int router_config" where
  "ex_table =
     \<lparr>models = [''model-a'' \<mapsto> ex_model ''model-a'' ''bedrock'' ''chat'' (Some 10) None 2,
                ''model-b'' \<mapsto> ex_model ''model-b'' ''bedrock'' ''chat'' None None 2],
      rules = [ex_rule ''r1'' wildcard ''model-a'', ex_rule ''r2'' wildcard ''model-b''],
      default_chat_model_id = Some ''model-b'',
      default_embedding_model_id = None\<rparr>"

section \<open>Counting attempts\<close>




section \<open>Example clients\<close>

text \<open>
  Scripted operations: one that is throttled on every call, one that fails with another
  error, one that answers; a client made of two operations; and client classes that all
  construct the same client.
\<close>

definition ex_throttled :: "nat \<Rightarrow> string \<Rightarrow> string outcome" where
  "ex_throttled k a = Raises ''ThrottlingException: Rate exceeded''"


definition ex_answers :: "string \<Rightarrow> nat \<Rightarrow> string \<Rightarrow> string outcome" where
  "ex_answers r k a = Returns r"

definition ex_client ::
  "(nat \<Rightarrow> string \<Rightarrow> string outcome) \<Rightarrow> (nat \<Rightarrow> string \<Rightarrow> string outcome)
     \<Rightarrow> (string, string) provider_client" where
  "ex_client c e = \<lparr>chat = c, embed = e\<rparr>"

definition ex_classes :: "(string, string) provider_client \<Rightarrow> (int, string, string) provider_classes" where
  "ex_classes c =
     \<lparr>BedrockProviderClient = (\<lambda>mid ps. Returns c),
      AnthropicProviderClient = (\<lambda>mid ps. Returns c),
      GeminiProviderClient = (\<lambda>mid ps. Returns c)\<rparr>"

definition ex_selection :: "int model_config \<Rightarrow> int model_selection" where
  "ex_selection m = \<lparr>model_config = m, params = default_params m\<rparr>"

text \<open>
  A table with backups: \<open>model-a\<close> (chat, two attempts) backed by \<open>model-b\<close> (chat, one
  attempt), and \<open>model-c\<close> (chat, one attempt) backed by \<open>model-e\<close> (embedding).
\<close>

definition ex_failover_table :: "int router_config" where
  "ex_failover_table =
     \<lparr>models =
        [''model-a'' \<mapsto> ex_model ''model-a'' ''bedrock'' ''chat'' None (Some ''model-b'') 2,
         ''model-b'' \<mapsto> ex_model ''model-b'' ''anthropic'' ''chat'' None None 1,
         ''model-c'' \<mapsto> ex_model ''model-c'' ''bedrock'' ''chat'' None (Some ''model-e'') 1,
         ''model-e'' \<mapsto> ex_model ''model-e'' ''bedrock'' ''embedding'' None None 1],
      rules = [],
      default_chat_model_id = Some ''model-a'',
      default_embedding_model_id = Some ''model-e''\<rparr>"

text \<open>
  Client classes whose clients answer with the value of \<^verbatim>\<open>max_tokens\<close> they were
  constructed with: \<open>defaults\<close> for 100, \<open>other\<close> otherwise.
\<close>

definition ex_echo_client :: "string \<Rightarrow> (string \<rightharpoonup> int) \<Rightarrow> (string, string) provider_client outcome" where
  "ex_echo_client mid ps =
     Returns (ex_client
       (ex_answers (if ps ''max_tokens'' = Some 100 then ''defaults'' else ''other''))
       (ex_answers (if ps ''max_tokens'' = Some 100 then ''defaults'' else ''other'')))"

definition ex_echo_classes :: "(int, string, string) provider_classes" where
  "ex_echo_classes =
     \<lparr>BedrockProviderClient = ex_echo_client,
      AnthropicProviderClient = ex_echo_client,
      GeminiProviderClient = ex_echo_client\<rparr>"

section \<open>Rule matching and table order\<close>

lemma range_ok_spec: "range_ok r n \<longleftrightarrow> spec_in_range r n"
  by (auto simp: range_ok_def spec_in_range_def split: option.splits)

lemma unset_empty_fields_sel:
  "rule_condition.task_type (unset_empty_fields c) = unset_empty (rule_condition.task_type c)"
  "rule_condition.complexity (unset_empty_fields c) = unset_empty (rule_condition.complexity c)"
  "rule_condition.language (unset_empty_fields c) = unset_empty (rule_condition.language c)"
  "tenant_tiers (unset_empty_fields c) = unset_empty (tenant_tiers c)"
  "context_tokens_range (unset_empty_fields c) = context_tokens_range c"
  "chunk_tokens_range (unset_empty_fields c) = chunk_tokens_range c"
  by (simp_all add: unset_empty_fields_def)

lemma str_cond:
  "(truthy_str v \<and> the v \<noteq> x)
     \<longleftrightarrow> \<not> (case unset_empty v of None \<Rightarrow> True | Some t \<Rightarrow> t = x)"
  by (cases v) (simp_all add: unset_empty_def)

lemma list_cond:
  "(truthy_list v \<and> x \<notin> set (the v))
     \<longleftrightarrow> \<not> (case unset_empty v of None \<Rightarrow> True | Some ts \<Rightarrow> x \<in> set ts)"
  by (cases v) (simp_all add: unset_empty_def)

lemma if_chain6:
  "(if \<not> a then False else if \<not> b then False else if \<not> c then False
    else if \<not> d then False else if \<not> e then False else if \<not> g then False else True)
   \<longleftrightarrow> (a \<and> b \<and> c \<and> d \<and> e \<and> g)"
  by simp

lemma rule_matches_iff:
  "rule_matches r f \<longleftrightarrow> spec_rule_matches (unset_empty_fields (when_rule r)) f"
  unfolding rule_matches_def spec_rule_matches_def Let_def unset_empty_fields_sel
    str_cond list_cond range_ok_spec
  by (rule if_chain6)

lemma wildcard_matches: "when_rule r = wildcard \<Longrightarrow> rule_matches r f"
  by (simp add: rule_matches_def wildcard_def range_ok_def)

lemma select_from_first_match:
  "\<forall>q\<in>set pre. \<not> rule_matches q f \<Longrightarrow> rule_matches r f
    \<Longrightarrow> select_from cfg (pre @ r # post) f = select_by_rule cfg r f"
  by (induction pre) simp_all


lemma select_by_rule_models:
  "models cfg' = models cfg \<Longrightarrow> select_by_rule cfg' r f = select_by_rule cfg r f"
  by (simp add: select_by_rule_def)

lemma select_from_append_matched:
  "\<exists>q\<in>set rs. rule_matches q f \<Longrightarrow> select_from cfg (rs @ ws) f = select_from cfg rs f"
  by (induction rs) auto

lemma find_append_matched:
  "find P rs = Some r \<Longrightarrow> find P (rs @ ws) = Some r"
  by (induction rs) auto

section \<open>C1: the earliest matching rule decides\<close>

text \<open>
  Claim C1, as stated, at a concrete table: both rules of \<open>ex_table\<close> match the request,
  the earliest one names \<open>model-a\<close>, whose context limit is 10, and the request carries 11
  context tokens. Selection raises the capacity error; it returns no Selection.
\<close>

theorem first_match_counterexample:
  "rule_matches (ex_rule ''r1'' wildcard ''model-a'') (ex_features ''chat'' 3 11)
   \<and> rule_matches (ex_rule ''r2'' wildcard ''model-b'') (ex_features ''chat'' 3 11)
   \<and> select_model_for_features ex_table (ex_features ''chat'' 3 11)
       = Inl (ContextExceeded 11 10 ''model-a'')"
  by (simp add: select_model_for_features_def ex_table_def ex_rule_def ex_features_def
      ex_model_def wildcard_def rule_matches_def range_ok_def select_by_rule_def
      ensure_context_limit_def)

text \<open>
  Claim C1, amended. Let \<open>r\<close> be the earliest rule of the table that matches the features
  (no rule before it matches). Then the outcome of selection is the outcome of \<open>r\<close> alone:
  a Selection of the target \<open>r\<close> names, with the target's defaults overridden by the
  overrides of \<open>r\<close>, when that target is in the table and passes the capacity check; the
  capacity error of that target when it does not pass; and whenever a Selection is returned
  its target is the one \<open>r\<close> names. The rules after \<open>r\<close> and the defaults are not
  consulted: replacing them by any others leaves the outcome unchanged.
\<close>

theorem first_match_decides:
  assumes "rules cfg = pre @ r # post"
    and "\<forall>q\<in>set pre. \<not> rule_matches q f"
    and "rule_matches r f"
  shows "select_model_for_features cfg f = select_by_rule cfg r f
    \<and> (\<forall>m. models cfg (use_model r) = Some m \<and> ensure_context_limit m f = None
          \<longrightarrow> select_model_for_features cfg f
              = Inr \<lparr>model_config = m, params = default_params m ++ override_params r\<rparr>)
    \<and> (\<forall>m e. models cfg (use_model r) = Some m \<and> ensure_context_limit m f = Some e
          \<longrightarrow> select_model_for_features cfg f = Inl e)
    \<and> (\<forall>sel. select_model_for_features cfg f = Inr sel
          \<longrightarrow> models cfg (use_model r) = Some (model_config sel))
    \<and> (\<forall>post' dc de.
          select_model_for_features
            (cfg\<lparr>rules := pre @ r # post', default_chat_model_id := dc,
                 default_embedding_model_id := de\<rparr>) f
          = select_model_for_features cfg f)"
proof -
  have sel: "select_model_for_features cfg f = select_by_rule cfg r f"
    using assms by (simp add: select_model_for_features_def select_from_first_match)
  have other: "select_model_for_features
            (cfg\<lparr>rules := pre @ r # post', default_chat_model_id := dc,
                 default_embedding_model_id := de\<rparr>) f
          = select_by_rule cfg r f" for post' dc de
    using assms(2,3)
    by (simp add: select_model_for_features_def select_from_first_match select_by_rule_def)
  show ?thesis
    unfolding other unfolding sel
    by (auto simp: select_by_rule_def Let_def split: option.splits)
qed

theorem first_match_decides_witness:
  "select_model_for_features ex_table (ex_features ''chat'' 3 5)
     = Inr \<lparr>model_config = ex_model ''model-a'' ''bedrock'' ''chat'' (Some 10) None 2,
            params = [''max_tokens'' \<mapsto> 50]\<rparr>
   \<and> select_model_for_features
        (ex_table\<lparr>rules := [ex_rule ''r1'' wildcard ''model-a''],
                  default_chat_model_id := None, default_embedding_model_id := None\<rparr>)
        (ex_features ''chat'' 3 5)
      = select_model_for_features ex_table (ex_features ''chat'' 3 5)"
proof -
  let ?r1 = "ex_rule ''r1'' wildcard ''model-a''"
  let ?r2 = "ex_rule ''r2'' wildcard ''model-b''"
  let ?f = "ex_features ''chat'' 3 5"
  let ?m = "ex_model ''model-a'' ''bedrock'' ''chat'' (Some 10) None 2"
  have h1: "rules ex_table = [] @ ?r1 # [?r2]" by (simp add: ex_table_def)
  have h2: "\<forall>q\<in>set []. \<not> rule_matches q ?f" by simp
  have h3: "rule_matches ?r1 ?f" by (simp add: wildcard_matches ex_rule_def)
  have m: "models ex_table (use_model ?r1) = Some ?m"
    by (simp add: ex_table_def ex_rule_def)
  have ok: "ensure_context_limit ?m ?f = None"
    by (simp add: ensure_context_limit_def ex_model_def ex_features_def)
  have p: "default_params ?m ++ override_params ?r1 = [''max_tokens'' \<mapsto> 50]"
    by (simp add: ex_model_def ex_rule_def)
  from first_match_decides [OF h1 h2 h3] m ok p show ?thesis
    by (metis append_Nil)
qed

section \<open>C2: what a rule matches\<close>

lemma select_from_rules_update:
  "select_from (cfg\<lparr>rules := x\<rparr>) rs f = select_from cfg rs f"
  by (induction rs)
     (simp_all add: select_by_rule_def select_default_def Let_def cong: option.case_cong)

text \<open>
  Claim C2, as stated, at a concrete rule: the tenant tier field of the condition is set, to
  the empty list, so no tier is a member of it and the specification's wording says that
  the rule matches nothing. The router treats the empty list as unset: the rule matches.
\<close>

theorem rule_matches_counterexample:
  "rule_matches (ex_rule ''r1'' (wildcard\<lparr>tenant_tiers := Some []\<rparr>) ''model-a'')
     (ex_features ''chat'' 3 5)
   \<and> \<not> spec_rule_matches
         (when_rule (ex_rule ''r1'' (wildcard\<lparr>tenant_tiers := Some []\<rparr>) ''model-a''))
         (ex_features ''chat'' 3 5)"
  by (simp add: rule_matches_def spec_rule_matches_def ex_rule_def ex_features_def
      wildcard_def range_ok_def spec_in_range_def)

text \<open>
  Claim C2, amended. A rule matches if and only if every set field of its condition agrees
  with the summary (task kind, complexity and language by equality, tenant tier by
  membership, the context range against the context tokens and the chunk range against
  the token count, with \<^verbatim>\<open>gte\<close> inclusive and \<^verbatim>\<open>lt\<close> exclusive), where a task kind, complexity,
  language or tier list that is empty counts as unset, like \<^verbatim>\<open>None\<close>. An all-wildcard rule
  matches every summary, and appending a rule at the end of a table in which some rule
  matches changes neither the first matching rule nor the outcome of selection.
\<close>

theorem rule_matches_spec:
  "(rule_matches r f \<longleftrightarrow> spec_rule_matches (unset_empty_fields (when_rule r)) f)
   \<and> (when_rule w = wildcard \<longrightarrow> rule_matches w f)
   \<and> ((\<exists>q\<in>set (rules cfg). rule_matches q f) \<longrightarrow>
        find (\<lambda>q. rule_matches q f) (rules cfg @ [w]) = find (\<lambda>q. rule_matches q f) (rules cfg)
        \<and> select_model_for_features (cfg\<lparr>rules := rules cfg @ [w]\<rparr>) f
            = select_model_for_features cfg f)"
proof -
  have "find (\<lambda>q. rule_matches q f) (rules cfg @ [w]) = find (\<lambda>q. rule_matches q f) (rules cfg)"
    if "\<exists>q\<in>set (rules cfg). rule_matches q f"
  proof -
    from that obtain q where "find (\<lambda>q. rule_matches q f) (rules cfg) = Some q"
      by (cases "find (\<lambda>q. rule_matches q f) (rules cfg)") (auto simp: find_None_iff)
    then show ?thesis by (simp add: find_append_matched)
  qed
  moreover have "select_model_for_features (cfg\<lparr>rules := rules cfg @ [w]\<rparr>) f
            = select_model_for_features cfg f"
    if "\<exists>q\<in>set (rules cfg). rule_matches q f"
    using that
    by (simp add: select_model_for_features_def select_from_rules_update
        select_from_append_matched)
  ultimately show ?thesis
    using rule_matches_iff [of r f] wildcard_matches [of w f] by blast
qed

theorem rule_matches_spec_witness:
  "rule_matches
     (ex_rule ''r1'' (wildcard\<lparr>rule_condition.task_type := Some ''chat'',
        context_tokens_range := Some \<lparr>gte = Some 5, lt = Some 6\<rparr>\<rparr>) ''model-a'')
     (ex_features ''chat'' 3 5)
   \<and> rule_matches (ex_rule ''r9'' wildcard ''model-b'') (ex_features ''chat'' 3 5)
   \<and> select_model_for_features
       (ex_table\<lparr>rules := rules ex_table @ [ex_rule ''r9'' wildcard ''model-b'']\<rparr>)
       (ex_features ''chat'' 3 5)
     = select_model_for_features ex_table (ex_features ''chat'' 3 5)"
proof -
  let ?c = "wildcard\<lparr>rule_condition.task_type := Some ''chat'',
        context_tokens_range := Some \<lparr>gte = Some 5, lt = Some 6\<rparr>\<rparr>"
  let ?f = "ex_features ''chat'' 3 5"
  have s: "spec_rule_matches (unset_empty_fields (when_rule (ex_rule ''r1'' ?c ''model-a''))) ?f"
    by (simp add: spec_rule_matches_def unset_empty_fields_def unset_empty_def ex_rule_def
        ex_features_def wildcard_def spec_in_range_def)
  have w: "when_rule (ex_rule ''r9'' wildcard ''model-b'') = wildcard"
    by (simp add: ex_rule_def)
  have e: "\<exists>q\<in>set (rules ex_table). rule_matches q ?f"
    by (simp add: ex_table_def wildcard_matches ex_rule_def)
  from rule_matches_spec [of "ex_rule ''r1'' ?c ''model-a''" ?f
      "ex_rule ''r9'' wildcard ''model-b''" ex_table] s w e
  show ?thesis by blast
qed

section \<open>C4: the capacity boundary\<close>




section \<open>The retry loop\<close>




lemma retry_loop_sleep_fails:
  "call (Suc n) = Raises e \<Longrightarrow> is_throttling_error e \<Longrightarrow> int (Suc n) < max_attempts policy
    \<Longrightarrow> backoff_ms policy < 0
    \<Longrightarrow> retry_loop call ev policy n = (Raised SleepNegative, [ev])"
  by (simp add: retry_loop.simps)











section \<open>C3: the number of primary attempts\<close>




section \<open>C5: which errors are retried\<close>






section \<open>C6: exhaustion without a usable backup\<close>

text \<open>
  Claim C6. Let the primary loop end exhausted (every allowed attempt was throttled).
  If the primary target has no backup target id configured (the id is \<^verbatim>\<open>None\<close>, or empty,
  which the router also reports as not configured), the call fails with the error for
  exhaustion without a backup. If a backup target id is configured and is not a key of
  the table's targets, the call fails with the error for a backup that is not found. In
  both cases nothing more is called: the events are those of the primary loop.
\<close>

theorem exhausted_without_backup:
  assumes "retry_loop (\<lambda>k. func k func_arg) (CallPrimary func_arg)
             (retry_policy (model_config sel)) 0 = (Exhausted, evs)"
  shows "(backup_model_id (model_config sel) = None \<or> backup_model_id (model_config sel) = Some []
          \<longrightarrow> call_with_retry_and_fallback cfg classes sel func func_arg
              = (Inl (ThrottledNoBackup (id_model (model_config sel))), evs))
    \<and> (backup_model_id (model_config sel) = Some b \<and> b \<noteq> [] \<and> models cfg b = None
          \<longrightarrow> call_with_retry_and_fallback cfg classes sel func func_arg
              = (Inl (BackupNotFound b (id_model (model_config sel))), evs))"
  using assms
  by (auto simp: call_with_retry_and_fallback_def Let_def fallback_def no_backup_def)

theorem exhausted_without_backup_witness:
  "call_with_retry_and_fallback ex_table (ex_classes (ex_client ex_throttled ex_throttled))
      (ex_selection (ex_model ''model-a'' ''bedrock'' ''chat'' None None 1))
      ex_throttled ''hello''
     = (Inl (ThrottledNoBackup ''model-a''), [CallPrimary ''hello''])
   \<and> call_with_retry_and_fallback ex_table (ex_classes (ex_client ex_throttled ex_throttled))
      (ex_selection (ex_model ''model-a'' ''bedrock'' ''chat'' None (Some ''model-x'') 1))
      ex_throttled ''hello''
     = (Inl (BackupNotFound ''model-x'' ''model-a''), [CallPrimary ''hello''])"
proof -
  let ?none = "ex_selection (ex_model ''model-a'' ''bedrock'' ''chat'' None None 1)"
  let ?miss = "ex_selection (ex_model ''model-a'' ''bedrock'' ''chat'' None (Some ''model-x'') 1)"
  let ?cl = "ex_classes (ex_client ex_throttled ex_throttled)"
  have t: "is_throttling_error ''ThrottlingException: Rate exceeded''"
    by (simp add: is_throttling_error_def lower_def throttling_keywords_def)
  have l1: "retry_loop (\<lambda>k. ex_throttled k ''hello'') (CallPrimary ''hello'')
      (retry_policy (model_config ?none)) 0 = (Exhausted, [CallPrimary ''hello''])"
    using t by (simp add: retry_loop.simps ex_throttled_def ex_selection_def ex_model_def)
  have l2: "retry_loop (\<lambda>k. ex_throttled k ''hello'') (CallPrimary ''hello'')
      (retry_policy (model_config ?miss)) 0 = (Exhausted, [CallPrimary ''hello''])"
    using t by (simp add: retry_loop.simps ex_throttled_def ex_selection_def ex_model_def)
  have a: "call_with_retry_and_fallback ex_table ?cl ?none ex_throttled ''hello''
     = (Inl (ThrottledNoBackup ''model-a''), [CallPrimary ''hello''])"
    using exhausted_without_backup [where func = ex_throttled and func_arg = "''hello''"
        and sel = ?none and evs = "[CallPrimary ''hello'']" and cfg = ex_table and classes = ?cl
        and b = "''model-x''", OF l1]
    by (simp add: ex_selection_def ex_model_def)
  have b: "call_with_retry_and_fallback ex_table ?cl ?miss ex_throttled ''hello''
     = (Inl (BackupNotFound ''model-x'' ''model-a''), [CallPrimary ''hello''])"
    using exhausted_without_backup [where func = ex_throttled and func_arg = "''hello''"
        and sel = ?miss and evs = "[CallPrimary ''hello'']" and cfg = ex_table and classes = ?cl
        and b = "''model-x''", OF l2]
    by (simp add: ex_selection_def ex_model_def ex_table_def)
  from a b show ?thesis by simp
qed

section \<open>C7: the backup path\<close>

text \<open>
  Claim C7. Let the primary loop end exhausted and let the backup target id resolve in
  the table. Then the backup's client is constructed with the backup target's own default
  parameters, whatever the parameters of the primary's Selection are (the call does not
  depend on them), and the outcome is that of the retry loop run on the backup's
  operation with the backup's own retry policy: its response, its error, or, when that
  loop ends exhausted too, the error for both targets throttled. The events are those of
  the primary loop followed by those of the backup loop.
\<close>

theorem backup_path:
  assumes "retry_loop (\<lambda>k. func k func_arg) (CallPrimary func_arg)
             (retry_policy (model_config sel)) 0 = (Exhausted, evs)"
    and "backup_model_id (model_config sel) = Some b" and "b \<noteq> []"
    and "models cfg b = Some backup_cfg"
  shows "call_with_retry_and_fallback cfg classes sel func func_arg
      = (case create_provider_client classes backup_cfg (default_params backup_cfg) of
           Inl e \<Rightarrow> (Inl e, evs)
         | Inr backup_client \<Rightarrow>
             (case retry_loop
                     (\<lambda>k. if type_model backup_cfg = ''chat''
                          then chat backup_client k func_arg
                          else embed backup_client k func_arg)
                     (if type_model backup_cfg = ''chat''
                      then CallBackupChat func_arg else CallBackupEmbed func_arg)
                     (retry_policy backup_cfg) 0 of
                (Returned r, evs') \<Rightarrow> (Inr r, evs @ evs')
              | (Raised e, evs') \<Rightarrow> (Inl e, evs @ evs')
              | (Exhausted, evs') \<Rightarrow>
                  (Inl (BothThrottled (id_model (model_config sel)) (id_model backup_cfg)),
                   evs @ evs')))
    \<and> (\<forall>p. call_with_retry_and_fallback cfg classes (sel\<lparr>params := p\<rparr>) func func_arg
           = call_with_retry_and_fallback cfg classes sel func func_arg)
    \<and> (\<forall>backup_client evs'.
          create_provider_client classes backup_cfg (default_params backup_cfg)
            = Inr backup_client
          \<and> retry_loop
               (\<lambda>k. if type_model backup_cfg = ''chat''
                    then chat backup_client k func_arg
                    else embed backup_client k func_arg)
               (if type_model backup_cfg = ''chat''
                then CallBackupChat func_arg else CallBackupEmbed func_arg)
               (retry_policy backup_cfg) 0 = (Exhausted, evs')
          \<longrightarrow> call_with_retry_and_fallback cfg classes sel func func_arg
              = (Inl (BothThrottled (id_model (model_config sel)) (id_model backup_cfg)),
                 evs @ evs'))"
proof -
  have eq: "call_with_retry_and_fallback cfg classes sel func func_arg
      = (case create_provider_client classes backup_cfg (default_params backup_cfg) of
           Inl e \<Rightarrow> (Inl e, evs)
         | Inr backup_client \<Rightarrow>
             (case retry_loop
                     (\<lambda>k. if type_model backup_cfg = ''chat''
                          then chat backup_client k func_arg
                          else embed backup_client k func_arg)
                     (if type_model backup_cfg = ''chat''
                      then CallBackupChat func_arg else CallBackupEmbed func_arg)
                     (retry_policy backup_cfg) 0 of
                (Returned r, evs') \<Rightarrow> (Inr r, evs @ evs')
              | (Raised e, evs') \<Rightarrow> (Inl e, evs @ evs')
              | (Exhausted, evs') \<Rightarrow>
                  (Inl (BothThrottled (id_model (model_config sel)) (id_model backup_cfg)),
                   evs @ evs')))"
    using assms
    by (simp add: call_with_retry_and_fallback_def Let_def fallback_def no_backup_def)
  have indep: "call_with_retry_and_fallback cfg classes (sel\<lparr>params := p\<rparr>) func func_arg
           = call_with_retry_and_fallback cfg classes sel func func_arg" for p
    by (simp add: call_with_retry_and_fallback_def)
  show ?thesis
    unfolding indep unfolding eq by simp
qed

theorem backup_path_witness:
  "call_with_retry_and_fallback ex_failover_table ex_echo_classes
      \<lparr>model_config = ex_model ''model-a'' ''bedrock'' ''chat'' None (Some ''model-b'') 2,
       params = [''max_tokens'' \<mapsto> 50]\<rparr>
      ex_throttled ''hello''
     = (Inr ''defaults'',
        [CallPrimary ''hello'', Sleep 200, CallPrimary ''hello'', CallBackupChat ''hello''])
   \<and> call_with_retry_and_fallback ex_failover_table
      (ex_classes (ex_client ex_throttled ex_throttled))
      \<lparr>model_config = ex_model ''model-a'' ''bedrock'' ''chat'' None (Some ''model-b'') 2,
       params = [''max_tokens'' \<mapsto> 50]\<rparr>
      ex_throttled ''hello''
     = (Inl (BothThrottled ''model-a'' ''model-b''),
        [CallPrimary ''hello'', Sleep 200, CallPrimary ''hello'', CallBackupChat ''hello''])"
proof -
  let ?a = "ex_model ''model-a'' ''bedrock'' ''chat'' None (Some ''model-b'') 2"
  let ?b = "ex_model ''model-b'' ''anthropic'' ''chat'' None None 1"
  let ?sel = "\<lparr>model_config = ?a, params = [''max_tokens'' \<mapsto> 50]\<rparr>"
  let ?evs = "[CallPrimary ''hello'', Sleep 200, CallPrimary ''hello'']"
  let ?thr = "ex_classes (ex_client ex_throttled ex_throttled)"
  have t: "is_throttling_error ''ThrottlingException: Rate exceeded''"
    by (simp add: is_throttling_error_def lower_def throttling_keywords_def)
  have h1: "retry_loop (\<lambda>k. ex_throttled k ''hello'') (CallPrimary ''hello'')
      (retry_policy (model_config ?sel)) 0 = (Exhausted, ?evs)"
    using t by (simp add: retry_loop.simps ex_throttled_def ex_model_def)
  have h2: "backup_model_id (model_config ?sel) = Some ''model-b''"
    by (simp add: ex_model_def)
  have h3: "''model-b'' \<noteq> []" by simp
  have h4: "models ex_failover_table ''model-b'' = Some ?b"
    by (simp add: ex_failover_table_def)
  have c1: "create_provider_client ex_echo_classes ?b (default_params ?b)
      = Inr (ex_client (ex_answers ''defaults'') (ex_answers ''defaults''))"
    by (simp add: create_provider_client_def ex_echo_classes_def ex_echo_client_def
        construct_def ex_model_def)
  have c2: "create_provider_client ?thr ?b (default_params ?b)
      = Inr (ex_client ex_throttled ex_throttled)"
    by (simp add: create_provider_client_def ex_classes_def construct_def ex_model_def)
  have l1: "retry_loop
      (\<lambda>k. if type_model ?b = ''chat''
           then chat (ex_client (ex_answers ''defaults'') (ex_answers ''defaults'')) k ''hello''
           else embed (ex_client (ex_answers ''defaults'') (ex_answers ''defaults'')) k ''hello'')
      (if type_model ?b = ''chat'' then CallBackupChat ''hello'' else CallBackupEmbed ''hello'')
      (retry_policy ?b) 0 = (Returned ''defaults'', [CallBackupChat ''hello''])"
    by (simp add: retry_loop.simps ex_model_def ex_client_def ex_answers_def)
  have l2: "retry_loop
      (\<lambda>k. if type_model ?b = ''chat''
           then chat (ex_client ex_throttled ex_throttled) k ''hello''
           else embed (ex_client ex_throttled ex_throttled) k ''hello'')
      (if type_model ?b = ''chat'' then CallBackupChat ''hello'' else CallBackupEmbed ''hello'')
      (retry_policy ?b) 0 = (Exhausted, [CallBackupChat ''hello''])"
    using t by (simp add: retry_loop.simps ex_model_def ex_client_def ex_throttled_def)
  have ids: "id_model (model_config ?sel) = ''model-a''" "id_model ?b = ''model-b''"
    by (simp_all add: ex_model_def)
  have a: "call_with_retry_and_fallback ex_failover_table ex_echo_classes ?sel
      ex_throttled ''hello'' = (Inr ''defaults'', ?evs @ [CallBackupChat ''hello''])"
    using backup_path [where func = ex_throttled and func_arg = "''hello''" and sel = ?sel
        and evs = ?evs and b = "''model-b''" and cfg = ex_failover_table and backup_cfg = ?b
        and classes = ex_echo_classes, OF h1 h2 h3 h4]
    unfolding c1 sum.case l1 by simp
  have b: "call_with_retry_and_fallback ex_failover_table ?thr ?sel
      ex_throttled ''hello''
      = (Inl (BothThrottled ''model-a'' ''model-b''), ?evs @ [CallBackupChat ''hello''])"
    using backup_path [where func = ex_throttled and func_arg = "''hello''" and sel = ?sel
        and evs = ?evs and b = "''model-b''" and cfg = ex_failover_table and backup_cfg = ?b
        and classes = ?thr, OF h1 h2 h3 h4]
    unfolding c2 sum.case l2 ids by simp
  from a b show ?thesis by simp
qed

section \<open>C8: the kind of the call against the kind of the target\<close>

text \<open>
  Claim C8. \<^verbatim>\<open>chat\<close> on a handle whose target's task kind is not \<open>chat\<close>, and \<^verbatim>\<open>embed\<close> on a
  handle whose target's task kind is not \<open>embedding\<close>, fail with the type error and leave
  no event: no call on any backend, no wait, no fallback.
\<close>

theorem kind_mismatch:
  "(type_model (model_config (selection h)) \<noteq> ''chat'' \<longrightarrow>
      handle_chat cfg classes h messages = (Inl ChatOnNonChat, []))
   \<and> (type_model (model_config (selection h)) \<noteq> ''embedding'' \<longrightarrow>
      handle_embed cfg classes h txt = (Inl EmbedOnNonEmbedding, []))"
  by (simp add: handle_chat_def handle_embed_def)

theorem kind_mismatch_witness:
  "handle_chat ex_table (ex_classes (ex_client (ex_answers ''hi'') (ex_answers ''v'')))
      \<lparr>selection = ex_selection (ex_model ''model-e'' ''bedrock'' ''embedding'' None None 2),
       provider_client = ex_client (ex_answers ''hi'') (ex_answers ''v'')\<rparr> ''hello''
     = (Inl ChatOnNonChat, [])
   \<and> handle_embed ex_table (ex_classes (ex_client (ex_answers ''hi'') (ex_answers ''v'')))
      \<lparr>selection = ex_selection (ex_model ''model-a'' ''bedrock'' ''chat'' None None 2),
       provider_client = ex_client (ex_answers ''hi'') (ex_answers ''v'')\<rparr> ''hello''
     = (Inl EmbedOnNonEmbedding, [])"
proof -
  let ?c = "ex_client (ex_answers ''hi'') (ex_answers ''v'')"
  let ?he = "\<lparr>selection = ex_selection (ex_model ''model-e'' ''bedrock'' ''embedding'' None None 2),
       provider_client = ?c\<rparr>"
  let ?hc = "\<lparr>selection = ex_selection (ex_model ''model-a'' ''bedrock'' ''chat'' None None 2),
       provider_client = ?c\<rparr>"
  have e: "type_model (model_config (selection ?he)) \<noteq> ''chat''"
    by (simp add: ex_selection_def ex_model_def)
  have c: "type_model (model_config (selection ?hc)) \<noteq> ''embedding''"
    by (simp add: ex_selection_def ex_model_def)
  from kind_mismatch [of ?he ex_table "ex_classes ?c" "''hello''"] e
  have a: "handle_chat ex_table (ex_classes ?c) ?he ''hello'' = (Inl ChatOnNonChat, [])"
    by simp
  from kind_mismatch [of ?hc ex_table "ex_classes ?c" _ "''hello''"] c
  have b: "handle_embed ex_table (ex_classes ?c) ?hc ''hello'' = (Inl EmbedOnNonEmbedding, [])"
    by simp
  from a b show ?thesis by simp
qed

section \<open>C9: feature extraction\<close>



section \<open>C10: the operation invoked on the backup\<close>



end
